theory Spec2Isabelle
  imports Main "HOL-Library.Monad_Syntax"
begin

section \<open>killer: terminating processes by identifier or by name\<close>

text \<open>
  A shallow embedding of \<^verbatim>\<open>src/killer.ts\<close>: the resolver
  \<^verbatim>\<open>findPidByProcessName\<close>, the terminator \<^verbatim>\<open>killProcess\<close> and the
  driver \<^verbatim>\<open>main\<close>. The operating system is a parameter: a function \<open>exec\<close> that
  runs one shell command on a world of any type and yields the callback's arguments.
  Every promise of the source is awaited at once, so a promise is the pair of its outcome
  (\<open>Inl\<close> a rejection, \<open>Inr\<close> a fulfilment) and the state after it.
\<close>

subsection \<open>JavaScript values\<close>

text \<open>
  A JavaScript string is a sequence of UTF-16 code units, here natural numbers.
  \<open>js\<close> writes an ASCII literal.
\<close>

type_synonym jsstring = "nat list"

definition js :: "string \<Rightarrow> jsstring" where
  "js s = map of_char s"

text \<open>
  The numbers the program meets are doubles of integral value, the two infinities, the
  negative zero and NaN. \<open>Num i\<close> is the double whose value is the integer \<open>i\<close>.
\<close>

datatype jsnum = Num int | NegZero | PosInf | NegInf | NaN

text \<open>The number of binary digits of a natural number.\<close>

fun bit_width :: "nat \<Rightarrow> nat" where
  "bit_width n = (if n = 0 then 0 else Suc (bit_width (n div 2)))"

text \<open>
  The magnitude of the double nearest to a natural number (IEEE 754 binary64, ties to
  the even significand of 53 bits); \<open>None\<close> when the result is beyond the largest
  finite double, that is an infinity.
\<close>

definition round_double :: "nat \<Rightarrow> nat option" where
  "round_double m =
     (if bit_width m \<le> 53 then Some m
      else
        let e = bit_width m - 53;
            q = m div 2 ^ e;
            r = m mod 2 ^ e;
            half = 2 ^ (e - 1);
            q' = (if half < r \<or> (r = half \<and> odd q) then q + 1 else q);
            v = q' * 2 ^ e
        in if 2 ^ 1024 \<le> v then None else Some v)"

text \<open>The Number value of \<open>sign * m\<close>, as \<^verbatim>\<open>parseInt\<close> and \<^verbatim>\<open>Number\<close> build it.\<close>

definition to_double :: "bool \<Rightarrow> nat \<Rightarrow> jsnum" where
  "to_double negative m =
     (if m = 0 then (if negative then NegZero else Num 0)
      else case round_double m of
             None \<Rightarrow> (if negative then NegInf else PosInf)
           | Some v \<Rightarrow> Num (if negative then - int v else int v))"

text \<open>\<^verbatim>\<open>\d\<close>: the ASCII digits; and the value of a digit.\<close>

definition is_digit :: "nat \<Rightarrow> bool" where
  "is_digit c = (48 \<le> c \<and> c \<le> 57)"

definition digit_value :: "nat \<Rightarrow> nat" where
  "digit_value c = c - 48"

text \<open>The mathematical value of a string of decimal digits.\<close>

definition dec_value :: "jsstring \<Rightarrow> nat" where
  "dec_value s = foldl (\<lambda>a c. 10 * a + digit_value c) 0 s"

text \<open>\<^verbatim>\<open>/^\d+$/.test(s)\<close>: one or more decimal digits and nothing else.\<close>

definition all_digits :: "jsstring \<Rightarrow> bool" where
  "all_digits s = (s \<noteq> [] \<and> list_all is_digit s)"

text \<open>
  \<^verbatim>\<open>Number(s)\<close> for a string \<open>s\<close> of decimal digits, the only strings \<open>main\<close>
  converts: the literal's mathematical value, rounded to a double.
\<close>

definition Number_of_digits :: "jsstring \<Rightarrow> jsnum" where
  "Number_of_digits s = to_double False (dec_value s)"

text \<open>
  White space and line terminators, which \<^verbatim>\<open>trim\<close> and \<^verbatim>\<open>parseInt\<close> strip:
  TAB, LF, VT, FF, CR, SP, NBSP, U+1680, U+2000 to U+200A, U+2028, U+2029, U+202F, U+205F,
  U+3000 and U+FEFF.
\<close>

definition is_white_space :: "nat \<Rightarrow> bool" where
  "is_white_space c =
     (c \<in> set [9, 10, 11, 12, 13, 32, 160, 5760, 8232, 8233, 8239, 8287, 12288, 65279]
      \<or> (8192 \<le> c \<and> c \<le> 8202))"

definition trim_start :: "jsstring \<Rightarrow> jsstring" where
  "trim_start s = dropWhile is_white_space s"

definition trim :: "jsstring \<Rightarrow> jsstring" where
  "trim s = rev (dropWhile is_white_space (rev (dropWhile is_white_space s)))"

text \<open>
  \<^verbatim>\<open>s.split("\n")\<close>: the pieces between the line feeds, one more than there are
  line feeds. \<open>cur\<close> holds the piece being read, reversed.
\<close>

fun split_from :: "jsstring \<Rightarrow> jsstring \<Rightarrow> jsstring list" where
  "split_from cur [] = [rev cur]"
| "split_from cur (c # cs) =
     (if c = 10 then rev cur # split_from [] cs else split_from (c # cur) cs)"

definition split_lines :: "jsstring \<Rightarrow> jsstring list" where
  "split_lines s = split_from [] s"

text \<open>
  \<^verbatim>\<open>parseInt(s, 10)\<close>: leading white space is dropped, then one sign is read, then
  the longest run of decimal digits; what follows the digits is ignored. No digit gives NaN.
\<close>

definition parseInt :: "jsstring \<Rightarrow> jsnum" where
  "parseInt s =
     (let t = trim_start s;
          negative = (t \<noteq> [] \<and> hd t = 45);
          u = (if t \<noteq> [] \<and> (hd t = 43 \<or> hd t = 45) then tl t else t);
          z = takeWhile is_digit u
      in if z = [] then NaN else to_double negative (dec_value z))"

subsection \<open>The operating system\<close>

text \<open>
  The commands the program builds. Each constructor is one template string of the source
  with its hole: \<^verbatim>\<open>tasklist /FI "IMAGENAME eq NAME*" /FO CSV\<close>,
  \<^verbatim>\<open>pgrep -f "NAME"\<close>, \<^verbatim>\<open>taskkill /PID PID /F\<close> and \<^verbatim>\<open>kill -9 PID\<close>.
\<close>

datatype shell_command =
  Tasklist jsstring
| Pgrep jsstring
| Taskkill jsnum
| Kill9 jsnum

text \<open>
  The error object \<^verbatim>\<open>exec\<close> hands to its callback. Its \<^verbatim>\<open>code\<close> is the exit
  code of the command, a system error name when the command could not be run, or absent
  when a signal ended it.
\<close>

datatype err_code = ExitCode int | SysCode string | NoCode

record exec_error =
  code :: err_code
  message :: string

text \<open>
  \<open>exec\<close> runs a command in a world and yields the error or the standard output, and
  the world after the command.
\<close>

type_synonym 'w exec = "shell_command \<Rightarrow> 'w \<Rightarrow> (exec_error + jsstring) \<times> 'w"

text \<open>What the program writes to the console; each constructor is one message template.\<close>

datatype message =
  Usage
| Killing jsnum
| Killed jsnum
| NotFound jsstring
| Found jsstring "jsnum list"
| CannotKill jsnum exec_error
| Failed jsstring exec_error

text \<open>What the program does, in order: the commands it runs and the lines it prints.\<close>

datatype event =
  Exec shell_command
| ConsoleLog message
| ConsoleWarn message
| ConsoleError message

record 'w state =
  world :: 'w
  trace :: "event list"
  exitCode :: "int option"

definition emit :: "event \<Rightarrow> 'w state \<Rightarrow> 'w state" where
  "emit ev st = st\<lparr>trace := trace st @ [ev]\<rparr>"

definition run_exec :: "'w exec \<Rightarrow> shell_command \<Rightarrow> 'w state \<Rightarrow> (exec_error + jsstring) \<times> 'w state" where
  "run_exec exec command st =
     (let (res, w) = exec command (world st)
      in (res, (emit (Exec command) st)\<lparr>world := w\<rparr>))"

subsection \<open>The resolver\<close>

text \<open>
  The regular expression \<^verbatim>\<open>/"([^"]+)","([^"]+)","([^"]+)"/\<close>. A group is the longest
  run of characters other than the quote (code unit 34); a shorter run cannot match, since
  a quote must follow the group.
\<close>

definition expect :: "jsstring \<Rightarrow> jsstring \<Rightarrow> jsstring option" where
  "expect lit s = (if take (length lit) s = lit then Some (drop (length lit) s) else None)"

definition unquoted_run :: "jsstring \<Rightarrow> (jsstring \<times> jsstring) option" where
  "unquoted_run s =
     (let g = takeWhile (\<lambda>c. c \<noteq> 34) s
      in if g = [] then None else Some (g, dropWhile (\<lambda>c. c \<noteq> 34) s))"

definition match_here :: "jsstring \<Rightarrow> (jsstring \<times> jsstring \<times> jsstring) option" where
  "match_here s =
     do {
       s1 \<leftarrow> expect [34] s;
       (g1, s2) \<leftarrow> unquoted_run s1;
       s3 \<leftarrow> expect [34, 44, 34] s2;
       (g2, s4) \<leftarrow> unquoted_run s3;
       s5 \<leftarrow> expect [34, 44, 34] s4;
       (g3, s6) \<leftarrow> unquoted_run s5;
       _ \<leftarrow> expect [34] s6;
       Some (g1, g2, g3)
     }"



text \<open>\<^verbatim>\<open>line.match(re)\<close>: the groups of the leftmost match, \<open>None\<close> for null.\<close>

fun regex_match :: "jsstring \<Rightarrow> (jsstring \<times> jsstring \<times> jsstring) option" where
  "regex_match [] = match_here []"
| "regex_match (c # cs) =
     (case match_here (c # cs) of
        Some groups \<Rightarrow> Some groups
      | None \<Rightarrow> regex_match cs)"

text \<open>The loop over the lines of \<^verbatim>\<open>tasklist\<close>, pushing to \<open>pids\<close>.\<close>

fun tasklist_lines :: "jsstring list \<Rightarrow> jsnum list \<Rightarrow> jsnum list" where
  "tasklist_lines [] pids = pids"
| "tasklist_lines (line # lines) pids =
     (case regex_match line of
        None \<Rightarrow> tasklist_lines lines pids
      | Some (g1, g2, g3) \<Rightarrow>
          if g2 \<noteq> [] then
            (let pid = parseInt g2
             in if pid \<noteq> NaN then tasklist_lines lines (pids @ [pid])
                else tasklist_lines lines pids)
          else tasklist_lines lines pids)"

text \<open>The loop over the lines of \<^verbatim>\<open>pgrep\<close>.\<close>

fun pgrep_lines :: "jsstring list \<Rightarrow> jsnum list \<Rightarrow> jsnum list" where
  "pgrep_lines [] pids = pids"
| "pgrep_lines (line # lines) pids =
     (let pid = parseInt line
      in if pid \<noteq> NaN then pgrep_lines lines (pids @ [pid])
         else pgrep_lines lines pids)"

definition findPidByProcessName ::
  "string \<Rightarrow> 'w exec \<Rightarrow> jsstring \<Rightarrow> 'w state \<Rightarrow> (exec_error + jsnum list) \<times> 'w state" where
  "findPidByProcessName platform exec processName st =
     (let command = (if platform = ''win32'' then Tasklist processName else Pgrep processName);
          (res, st1) = run_exec exec command st
      in case res of
           Inl error \<Rightarrow>
             if platform \<noteq> ''win32'' \<and> code error = ExitCode 1 then (Inr [], st1)
             else (Inl error, st1)
         | Inr stdout \<Rightarrow>
             if platform = ''win32''
             then (Inr (tasklist_lines (drop 1 (split_lines (trim stdout))) []), st1)
             else (Inr (pgrep_lines (split_lines (trim stdout)) []), st1))"

subsection \<open>The terminator\<close>

definition killProcess ::
  "string \<Rightarrow> 'w exec \<Rightarrow> jsnum \<Rightarrow> 'w state \<Rightarrow> (exec_error + unit) \<times> 'w state" where
  "killProcess platform exec pid st =
     (let command = (if platform = ''win32'' then Taskkill pid else Kill9 pid);
          (res, st1) = run_exec exec command st
      in case res of
           Inl error \<Rightarrow> (Inl error, st1)
         | Inr _ \<Rightarrow> (Inr (), st1))"

subsection \<open>The driver\<close>

text \<open>The inner loop of \<open>main\<close>: each identifier in its own try block.\<close>

fun kill_each :: "string \<Rightarrow> 'w exec \<Rightarrow> jsnum list \<Rightarrow> 'w state \<Rightarrow> 'w state" where
  "kill_each platform exec [] st = st"
| "kill_each platform exec (pid # pids) st =
     (let (res, st1) = killProcess platform exec pid st;
          st2 = (case res of
                   Inr _ \<Rightarrow> emit (ConsoleLog (Killed pid)) st1
                 | Inl e \<Rightarrow> emit (ConsoleError (CannotKill pid e)) st1)
      in kill_each platform exec pids st2)"

text \<open>
  The body of the outer loop for one argument: the try block, and its catch clause where
  an awaited promise is rejected.
\<close>

definition handle_arg :: "string \<Rightarrow> 'w exec \<Rightarrow> jsstring \<Rightarrow> 'w state \<Rightarrow> 'w state" where
  "handle_arg platform exec arg st =
     (if all_digits arg then
        (let pid = Number_of_digits arg;
             st1 = emit (ConsoleLog (Killing pid)) st;
             (res, st2) = killProcess platform exec pid st1
         in case res of
              Inl err \<Rightarrow> emit (ConsoleError (Failed arg err)) st2
            | Inr _ \<Rightarrow> emit (ConsoleLog (Killed pid)) st2)
      else
        (let (res, st1) = findPidByProcessName platform exec arg st
         in case res of
              Inl err \<Rightarrow> emit (ConsoleError (Failed arg err)) st1
            | Inr pids \<Rightarrow>
                if length pids = 0 then emit (ConsoleWarn (NotFound arg)) st1
                else kill_each platform exec pids (emit (ConsoleLog (Found arg pids)) st1)))"

fun main_loop :: "string \<Rightarrow> 'w exec \<Rightarrow> jsstring list \<Rightarrow> 'w state \<Rightarrow> 'w state" where
  "main_loop platform exec [] st = st"
| "main_loop platform exec (arg # args) st =
     main_loop platform exec args (handle_arg platform exec arg st)"

text \<open>
  \<open>main\<close> on the argument vector of the process, whose first two entries are the
  runtime and the script. No path of \<open>main\<close> rejects its promise, so the handler that
  exits with status 1 is never run, and the process ends with \<^verbatim>\<open>process.exitCode\<close>,
  or with 0 when that was never set.
\<close>

definition start :: "'w \<Rightarrow> 'w state" where
  "start w = \<lparr>world = w, trace = [], exitCode = None\<rparr>"

definition main :: "string \<Rightarrow> 'w exec \<Rightarrow> jsstring list \<Rightarrow> 'w \<Rightarrow> 'w state" where
  "main platform exec argv w =
     (let st = start w;
          args = drop 2 argv
      in if length args = 0
         then (emit (ConsoleError Usage) st)\<lparr>exitCode := Some 2\<rparr>
         else main_loop platform exec args st)"

definition exit_status :: "'w state \<Rightarrow> int" where
  "exit_status st = (case exitCode st of None \<Rightarrow> 0 | Some c \<Rightarrow> c)"

text \<open>The commands a run has executed, and which of them resolve and which terminate.\<close>

fun commands :: "event list \<Rightarrow> shell_command list" where
  "commands [] = []"
| "commands (Exec c # evs) = c # commands evs"
| "commands (_ # evs) = commands evs"

fun is_resolve :: "shell_command \<Rightarrow> bool" where
  "is_resolve (Tasklist _) = True"
| "is_resolve (Pgrep _) = True"
| "is_resolve _ = False"

text \<open>
  The command \<open>killProcess\<close> runs for an identifier, and the command
  \<open>findPidByProcessName\<close> runs for a name.
\<close>

definition kill_command :: "string \<Rightarrow> jsnum \<Rightarrow> shell_command" where
  "kill_command platform pid = (if platform = ''win32'' then Taskkill pid else Kill9 pid)"

definition list_command :: "string \<Rightarrow> jsstring \<Rightarrow> shell_command" where
  "list_command platform processName =
     (if platform = ''win32'' then Tasklist processName else Pgrep processName)"

subsection \<open>The specification's reading, and an operating system for examples\<close>

text \<open>
  The specification's words for the POSIX listing: each output line is one identifier, and
  a line that is not numeric is skipped. A numeric line is a line of decimal digits only,
  as a numeric token is; its identifier is its decimal value.
\<close>

definition spec_numeric_lines :: "jsstring \<Rightarrow> jsnum list" where
  "spec_numeric_lines stdout =
     map (\<lambda>line. Num (int (dec_value line))) (filter all_digits (split_lines stdout))"




text \<open>
  An operating system for examples: every listing command has the outcome \<open>listing\<close>,
  every terminating command the outcome \<open>killing\<close>, and the world counts the commands.
\<close>

definition stub_os :: "(exec_error + jsstring) \<Rightarrow> (exec_error + jsstring) \<Rightarrow> nat exec" where
  "stub_os listing killing command n = (if is_resolve command then listing else killing, Suc n)"

text \<open>The error of a command that ended with the given exit code.\<close>

definition exit_error :: "int \<Rightarrow> exec_error" where
  "exit_error n = \<lparr>code = ExitCode n, message = ''Command failed''\<rparr>"




section \<open>Properties\<close>

subsection \<open>State and trace\<close>

lemma trace_emit: "trace (emit ev st) = trace st @ [ev]"
  by (simp add: emit_def)

lemma world_emit: "world (emit ev st) = world st"
  by (simp add: emit_def)

lemma exitCode_emit: "exitCode (emit ev st) = exitCode st"
  by (simp add: emit_def)

lemma commands_append: "commands (xs @ ys) = commands xs @ commands ys"
  by (induction xs rule: commands.induct) simp_all

lemma run_exec_eq:
  "run_exec exec c st =
     (fst (exec c (world st)),
      st\<lparr>trace := trace st @ [Exec c], world := snd (exec c (world st))\<rparr>)"
  by (simp add: run_exec_def emit_def split: prod.splits)

lemma killProcess_eq:
  "killProcess p exec pid st =
     (map_sum id (\<lambda>_. ()) (fst (exec (kill_command p pid) (world st))),
      st\<lparr>trace := trace st @ [Exec (kill_command p pid)],
         world := snd (exec (kill_command p pid) (world st))\<rparr>)"
  by (simp add: killProcess_def kill_command_def run_exec_eq Let_def split: sum.splits)


lemma kill_each_exitCode: "exitCode (kill_each p exec pids st) = exitCode st"
  by (induction pids arbitrary: st)
     (simp_all add: killProcess_eq exitCode_emit split: sum.splits)

lemma findPid_exitCode:
  "exitCode (snd (findPidByProcessName p exec name st)) = exitCode st"
  by (simp add: findPidByProcessName_def run_exec_eq Let_def split: sum.splits)

lemma handle_arg_exitCode: "exitCode (handle_arg p exec arg st) = exitCode st"
  using findPid_exitCode [of p exec arg st]
  by (auto simp add: handle_arg_def Let_def killProcess_eq exitCode_emit kill_each_exitCode
      split: sum.splits prod.splits)

lemma main_loop_exitCode: "exitCode (main_loop p exec args st) = exitCode st"
  by (induction args arbitrary: st) (simp_all add: handle_arg_exitCode)


lemma main_loop_foldl:
  "main_loop p exec args st = foldl (\<lambda>s a. handle_arg p exec a s) st args"
  by (induction args arbitrary: st) simp_all

subsection \<open>The exit status\<close>

text \<open>
  C5. With no argument after the runtime and the script, the program prints the usage
  message to the error stream and nothing else, ends with status 2, runs no command
  (so neither resolves nor terminates) and leaves the world as it was.
\<close>

theorem no_arguments_usage:
  "drop 2 argv = [] \<Longrightarrow>
     trace (main p exec argv w) = [ConsoleError Usage] \<and>
     exit_status (main p exec argv w) = 2 \<and>
     commands (trace (main p exec argv w)) = [] \<and>
     world (main p exec argv w) = w"
  by (simp add: main_def start_def emit_def exit_status_def)

theorem no_arguments_usage_witness:
  "drop 2 (map js [''bun'', ''killer.ts'']) = [] \<and>
   trace (main ''linux'' (stub_os (Inr []) (Inr [])) (map js [''bun'', ''killer.ts'']) 0)
     = [ConsoleError Usage] \<and>
   exit_status (main ''linux'' (stub_os (Inr []) (Inr [])) (map js [''bun'', ''killer.ts'']) 0)
     = 2 \<and>
   commands (trace (main ''linux'' (stub_os (Inr []) (Inr [])) (map js [''bun'', ''killer.ts'']) 0))
     = [] \<and>
   world (main ''linux'' (stub_os (Inr []) (Inr [])) (map js [''bun'', ''killer.ts'']) 0) = 0"
proof -
  have h: "drop 2 (map js [''bun'', ''killer.ts'']) = []" by simp
  show ?thesis
    using h no_arguments_usage [OF h, of "''linux''" "stub_os (Inr []) (Inr [])" 0]
    by blast
qed

text \<open>
  C6. With at least one argument, the program handles every argument in order, whatever
  the commands do, and ends with status 0.
\<close>

theorem exit_zero:
  "drop 2 argv \<noteq> [] \<Longrightarrow>
     exit_status (main p exec argv w) = 0 \<and>
     main p exec argv w =
       foldl (\<lambda>s a. handle_arg p exec a s) (start w) (drop 2 argv)"
  by (simp add: main_def start_def exit_status_def main_loop_exitCode Let_def
      main_loop_foldl [symmetric])

theorem exit_zero_witness:
  "drop 2 (map js [''bun'', ''killer.ts'', ''42'', ''chrome'']) \<noteq> [] \<and>
   exit_status
     (main ''linux'' (stub_os (Inl (exit_error 2)) (Inl (exit_error 1)))
        (map js [''bun'', ''killer.ts'', ''42'', ''chrome'']) 0) = 0"
proof -
  have h: "drop 2 (map js [''bun'', ''killer.ts'', ''42'', ''chrome'']) \<noteq> []" by simp
  show ?thesis
    using h exit_zero [OF h, of "''linux''" "stub_os (Inl (exit_error 2)) (Inl (exit_error 1))" 0]
    by blast
qed

subsection \<open>Numbers and parsing\<close>

lemma bit_width_le: "bit_width m \<le> k \<longleftrightarrow> m < 2 ^ k"
proof (induction k arbitrary: m)
  case 0
  show ?case by simp
next
  case (Suc k)
  have "bit_width m \<le> Suc k \<longleftrightarrow> m = 0 \<or> bit_width (m div 2) \<le> k"
    by simp
  also have "\<dots> \<longleftrightarrow> m = 0 \<or> m div 2 < 2 ^ k"
    by (simp only: Suc.IH)
  also have "\<dots> \<longleftrightarrow> m < 2 ^ Suc k"
    by auto
  finally show ?case .
qed

lemma round_double_exact: "m \<le> 2 ^ 53 \<Longrightarrow> round_double m = Some m"
proof (cases "m = 2 ^ 53")
  case True
  have "round_double 9007199254740992 = Some 9007199254740992"
    by (simp add: round_double_def Let_def)
  with True show ?thesis by simp
next
  case False
  assume "m \<le> 2 ^ 53"
  with False have "m < 2 ^ 53" by simp
  then have "bit_width m \<le> 53" by (simp only: bit_width_le)
  then show ?thesis by (simp add: round_double_def)
qed

lemma to_double_exact: "m \<le> 2 ^ 53 \<Longrightarrow> to_double False m = Num (int m)"
  by (simp add: to_double_def round_double_exact)

lemma to_double_not_NaN: "to_double neg m \<noteq> NaN"
  by (simp add: to_double_def split: option.splits)

lemma digit_not_white_space: "is_digit c \<Longrightarrow> \<not> is_white_space c"
  by (auto simp add: is_digit_def is_white_space_def)

lemma digit_not_sign: "is_digit c \<Longrightarrow> c \<noteq> 43 \<and> c \<noteq> 45"
  by (auto simp add: is_digit_def)

lemma sign_not_white_space: "\<not> is_white_space 43" "\<not> is_white_space 45"
  by (simp_all add: is_white_space_def)

lemma takeWhile_digits_append:
  "list_all is_digit ds \<Longrightarrow> rest = [] \<or> \<not> is_digit (hd rest) \<Longrightarrow>
     takeWhile is_digit (ds @ rest) = ds"
  by (induction ds) (auto simp add: takeWhile_eq_Nil_iff neq_Nil_conv)

lemma parseInt_digits_prefix:
  assumes "all_digits ds" and "rest = [] \<or> \<not> is_digit (hd rest)"
  shows "parseInt (ds @ rest) = to_double False (dec_value ds)"
proof -
  from assms(1) obtain d ds' where ds: "ds = d # ds'" and d: "is_digit d"
    by (auto simp add: all_digits_def neq_Nil_conv)
  have all: "list_all is_digit ds" using assms(1) by (simp add: all_digits_def)
  have t: "trim_start (ds @ rest) = ds @ rest"
    using d by (simp add: ds trim_start_def digit_not_white_space)
  have z: "takeWhile is_digit (ds @ rest) = ds"
    by (rule takeWhile_digits_append [OF all assms(2)])
  show ?thesis
    unfolding parseInt_def t Let_def
    using d digit_not_sign [OF d] z by (simp add: ds)
qed

lemma pgrep_lines_eq:
  "pgrep_lines ls pids = pids @ filter (\<lambda>n. n \<noteq> NaN) (map parseInt ls)"
  by (induction ls arbitrary: pids) (simp_all add: Let_def)

subsection \<open>The resolver's failures\<close>

lemma findPid_eq:
  "findPidByProcessName p exec name st =
     ((case fst (exec (list_command p name) (world st)) of
         Inl err \<Rightarrow> if p \<noteq> ''win32'' \<and> code err = ExitCode 1 then Inr [] else Inl err
       | Inr out \<Rightarrow>
           if p = ''win32'' then Inr (tasklist_lines (drop 1 (split_lines (trim out))) [])
           else Inr (pgrep_lines (split_lines (trim out)) [])),
      st\<lparr>trace := trace st @ [Exec (list_command p name)],
         world := snd (exec (list_command p name) (world st))\<rparr>)"
  by (simp add: findPidByProcessName_def list_command_def run_exec_eq Let_def split: sum.splits)

lemma stub_os_list: "stub_os l k (list_command p name) n = (l, Suc n)"
  by (simp add: stub_os_def list_command_def)

lemma stub_os_kill: "stub_os l k (kill_command p pid) n = (k, Suc n)"
  by (simp add: stub_os_def kill_command_def)

text \<open>
  C2. When the listing command fails, the resolver returns the empty sequence, without
  an error, if the platform is not Windows and the command's exit code is 1; after any
  other failure it rejects with the very error of the command. Either way it has run the
  listing command once.
\<close>

theorem listing_failure:
  "exec (list_command p name) (world st) = (Inl err, w') \<Longrightarrow>
     findPidByProcessName p exec name st =
       (if p \<noteq> ''win32'' \<and> code err = ExitCode 1 then Inr [] else Inl err,
        st\<lparr>trace := trace st @ [Exec (list_command p name)], world := w'\<rparr>)"
  by (simp add: findPid_eq)

theorem listing_failure_witness:
  "stub_os (Inl (exit_error 1)) (Inr []) (list_command ''linux'' (js ''ghost'')) (world (start 0))
     = (Inl (exit_error 1), 1) \<and>
   fst (findPidByProcessName ''linux'' (stub_os (Inl (exit_error 1)) (Inr [])) (js ''ghost'') (start 0))
     = Inr [] \<and>
   stub_os (Inl (exit_error 2)) (Inr []) (list_command ''linux'' (js ''ghost'')) (world (start 0))
     = (Inl (exit_error 2), 1) \<and>
   fst (findPidByProcessName ''linux'' (stub_os (Inl (exit_error 2)) (Inr [])) (js ''ghost'') (start 0))
     = Inl (exit_error 2)"
proof -
  have h1: "stub_os (Inl (exit_error 1)) (Inr []) (list_command ''linux'' (js ''ghost'')) (world (start 0))
     = (Inl (exit_error 1), 1)"
    by (simp add: stub_os_list start_def)
  have h2: "stub_os (Inl (exit_error 2)) (Inr []) (list_command ''linux'' (js ''ghost'')) (world (start 0))
     = (Inl (exit_error 2), 1)"
    by (simp add: stub_os_list start_def)
  show ?thesis
    using h1 h2
      listing_failure [where exec = "stub_os (Inl (exit_error 1)) (Inr [])" and p = "''linux''"
        and name = "js ''ghost''" and st = "start 0", OF h1]
      listing_failure [where exec = "stub_os (Inl (exit_error 2)) (Inr [])" and p = "''linux''"
        and name = "js ''ghost''" and st = "start 0", OF h2]
    by (simp add: exit_error_def)
qed

text \<open>
  C9. On Windows the resolver rejects with the command's error after every failure of the
  listing command, exit code 1 included: the empty result for exit code 1 is for the
  other platforms only.
\<close>

theorem windows_exit_one_is_error:
  "exec (Tasklist name) (world st) = (Inl err, w') \<Longrightarrow>
     findPidByProcessName ''win32'' exec name st =
       (Inl err, st\<lparr>trace := trace st @ [Exec (Tasklist name)], world := w'\<rparr>) \<and>
     fst (findPidByProcessName ''win32'' exec name st) \<noteq> Inr []"
  by (simp add: findPid_eq list_command_def)

theorem windows_exit_one_is_error_witness:
  "stub_os (Inl (exit_error 1)) (Inr []) (Tasklist (js ''ghost'')) (world (start 0))
     = (Inl (exit_error 1), 1) \<and>
   code (exit_error 1) = ExitCode 1 \<and>
   findPidByProcessName ''win32'' (stub_os (Inl (exit_error 1)) (Inr [])) (js ''ghost'') (start 0)
     = (Inl (exit_error 1), \<lparr>world = 1, trace = [Exec (Tasklist (js ''ghost''))], exitCode = None\<rparr>)"
proof -
  have h: "stub_os (Inl (exit_error 1)) (Inr []) (Tasklist (js ''ghost'')) (world (start 0))
     = (Inl (exit_error 1), 1)"
    by (simp add: stub_os_def start_def)
  show ?thesis
    using h
      windows_exit_one_is_error [where exec = "stub_os (Inl (exit_error 1)) (Inr [])"
        and name = "js ''ghost''" and st = "start 0", OF h]
    by (simp add: exit_error_def start_def)
qed

subsection \<open>The driver on one argument\<close>

lemma handle_arg_digits:
  "all_digits tok \<Longrightarrow>
     trace (handle_arg p exec tok st) =
       trace st @
       [ConsoleLog (Killing (Number_of_digits tok)),
        Exec (kill_command p (Number_of_digits tok)),
        (case fst (exec (kill_command p (Number_of_digits tok)) (world st)) of
           Inl err \<Rightarrow> ConsoleError (Failed tok err)
         | Inr _ \<Rightarrow> ConsoleLog (Killed (Number_of_digits tok)))]"
  by (simp add: handle_arg_def Let_def killProcess_eq trace_emit world_emit emit_def
      split: sum.splits)

lemma handle_arg_digits_commands:
  "all_digits tok \<Longrightarrow>
     commands (trace (handle_arg p exec tok st)) =
       commands (trace st) @ [kill_command p (Number_of_digits tok)]"
  by (simp add: handle_arg_digits commands_append split: sum.splits)

lemma handle_arg_name:
  "\<not> all_digits tok \<Longrightarrow> findPidByProcessName p exec tok st = (res, st1) \<Longrightarrow>
     handle_arg p exec tok st =
       (case res of
          Inl err \<Rightarrow> emit (ConsoleError (Failed tok err)) st1
        | Inr pids \<Rightarrow>
            if pids = [] then emit (ConsoleWarn (NotFound tok)) st1
            else kill_each p exec pids (emit (ConsoleLog (Found tok pids)) st1))"
  by (simp add: handle_arg_def split: sum.splits)

lemma main_single: "main p exec [rt, script, tok] w = handle_arg p exec tok (start w)"
  by (simp add: main_def)

lemma is_resolve_kill_command: "\<not> is_resolve (kill_command p pid)"
  by (simp add: kill_command_def)

text \<open>
  C1, amended. For a token of decimal digits the driver runs the terminating command once,
  for the number \<^verbatim>\<open>Number\<close> makes of the token, and no listing command: whatever
  was done before, and as the whole run when the token is the only argument. That number
  is the integer value of the token when the value is at most \<open>2^53\<close>; a larger value
  is rounded to a double.
\<close>

theorem numeric_token_terminates_directly:
  "all_digits tok \<Longrightarrow>
     commands (trace (handle_arg p exec tok st)) =
       commands (trace st) @ [kill_command p (Number_of_digits tok)] \<and>
     commands (trace (main p exec [rt, script, tok] w)) =
       [kill_command p (Number_of_digits tok)] \<and>
     filter is_resolve (commands (trace (main p exec [rt, script, tok] w))) = [] \<and>
     (dec_value tok \<le> 2 ^ 53 \<longrightarrow> Number_of_digits tok = Num (int (dec_value tok)))"
  by (simp add: main_single handle_arg_digits_commands Number_of_digits_def to_double_exact
      start_def is_resolve_kill_command)

theorem numeric_token_terminates_directly_witness:
  "all_digits (js ''1234'') \<and> dec_value (js ''1234'') \<le> 2 ^ 53 \<and>
   Number_of_digits (js ''1234'') = Num 1234 \<and>
   commands (trace (main ''linux'' (stub_os (Inr []) (Inr []))
      [js ''bun'', js ''killer.ts'', js ''1234''] 0)) = [Kill9 (Num 1234)] \<and>
   filter is_resolve (commands (trace (main ''linux'' (stub_os (Inr []) (Inr []))
      [js ''bun'', js ''killer.ts'', js ''1234''] 0))) = []"
proof -
  have h1: "all_digits (js ''1234'')"
    by (simp add: js_def all_digits_def is_digit_def)
  have v: "dec_value (js ''1234'') = 1234"
    by (simp add: js_def dec_value_def digit_value_def)
  have h2: "dec_value (js ''1234'') \<le> 2 ^ 53"
    by (simp add: v)
  note t = numeric_token_terminates_directly [OF h1, of "''linux''" "stub_os (Inr []) (Inr [])"
        "start 0" "js ''bun''" "js ''killer.ts''" 0]
  have n: "Number_of_digits (js ''1234'') = Num 1234"
    using t h2 by (simp add: v)
  show ?thesis
    using h1 h2 n t by (simp add: kill_command_def)
qed

text \<open>
  C1 as the specification states it fails at the token \<^verbatim>\<open>9007199254740993\<close>, which is
  \<open>2^53 + 1\<close>: \<^verbatim>\<open>Number\<close> rounds it to \<open>2^53\<close>, and that is the identifier the
  terminating command gets.
\<close>

theorem numeric_token_counterexample:
  "all_digits (js ''9007199254740993'') \<and>
   int (dec_value (js ''9007199254740993'')) = 9007199254740993 \<and>
   commands (trace (main ''linux'' (stub_os (Inr []) (Inr []))
      [js ''bun'', js ''killer.ts'', js ''9007199254740993''] 0))
     = [Kill9 (Num 9007199254740992)] \<and>
   commands (trace (main ''linux'' (stub_os (Inr []) (Inr []))
      [js ''bun'', js ''killer.ts'', js ''9007199254740993''] 0))
     \<noteq> [Kill9 (Num (int (dec_value (js ''9007199254740993''))))]"
proof -
  have h1: "all_digits (js ''9007199254740993'')"
    by (simp add: js_def all_digits_def is_digit_def)
  have v: "int (dec_value (js ''9007199254740993'')) = 9007199254740993"
    by (simp add: js_def dec_value_def digit_value_def)
  have n: "Number_of_digits (js ''9007199254740993'') = Num 9007199254740992"
    by (simp add: js_def Number_of_digits_def dec_value_def digit_value_def to_double_def
        round_double_def Let_def)
  have "commands (trace (main ''linux'' (stub_os (Inr []) (Inr []))
      [js ''bun'', js ''killer.ts'', js ''9007199254740993''] 0))
      = [kill_command ''linux'' (Number_of_digits (js ''9007199254740993''))]"
    by (simp add: main_single handle_arg_digits_commands [OF h1] start_def)
  then show ?thesis
    using h1 v by (simp add: n kill_command_def)
qed

subsection \<open>Zero, leading zeros, and tokens that resolve to nothing\<close>

lemma dec_value_leading_zeros: "dec_value (replicate k 48 @ tok) = dec_value tok"
proof -
  have "foldl (\<lambda>a c. 10 * a + digit_value c) 0 (replicate k 48) = 0"
    by (induction k) (simp_all add: digit_value_def)
  then show ?thesis by (simp add: dec_value_def)
qed

lemma all_digits_leading_zeros: "all_digits tok \<Longrightarrow> all_digits (replicate k 48 @ tok)"
  by (auto simp add: all_digits_def is_digit_def list_all_iff)

text \<open>
  C10, amended. The numeric test accepts every string of one or more decimal digits, the
  string \<^verbatim>\<open>0\<close> and strings with leading zeros among them, and no other test
  follows it: the terminating command is run for the number \<^verbatim>\<open>Number\<close> makes of
  the string, which leading zeros do not change. That number is the decimal value of the
  string, zero included, when the value is at most \<open>2^53\<close>.
\<close>

theorem zero_and_leading_zeros:
  "all_digits tok \<Longrightarrow>
     all_digits (replicate k 48 @ tok) \<and>
     commands (trace (handle_arg p exec (replicate k 48 @ tok) st)) =
       commands (trace st) @ [kill_command p (Number_of_digits tok)] \<and>
     (dec_value tok \<le> 2 ^ 53 \<longrightarrow> Number_of_digits tok = Num (int (dec_value tok)))"
  by (simp add: all_digits_leading_zeros handle_arg_digits_commands Number_of_digits_def
      dec_value_leading_zeros to_double_exact)

theorem zero_and_leading_zeros_witness:
  "all_digits (js ''0'') \<and> dec_value (js ''0'') \<le> 2 ^ 53 \<and>
   commands (trace (handle_arg ''linux'' (stub_os (Inr []) (Inr [])) (js ''0'') (start 0)))
     = [Kill9 (Num 0)] \<and>
   all_digits (js ''7'') \<and> dec_value (js ''7'') \<le> 2 ^ 53 \<and>
   all_digits (js ''007'') \<and>
   commands (trace (handle_arg ''linux'' (stub_os (Inr []) (Inr [])) (js ''007'') (start 0)))
     = [Kill9 (Num 7)]"
proof -
  have z: "all_digits (js ''0'')" and s: "all_digits (js ''7'')"
    by (simp_all add: js_def all_digits_def is_digit_def)
  have vz: "dec_value (js ''0'') = 0" and vs: "dec_value (js ''7'') = 7"
    by (simp_all add: js_def dec_value_def digit_value_def)
  have bz: "dec_value (js ''0'') \<le> 2 ^ 53" and bs: "dec_value (js ''7'') \<le> 2 ^ 53"
    by (simp_all add: vz vs)
  have e0: "replicate 0 48 @ js ''0'' = js ''0''"
    by simp
  have e7: "replicate 2 48 @ js ''7'' = js ''007''"
    by (simp add: js_def numeral_2_eq_2)
  note tz = zero_and_leading_zeros [OF z, of 0 "''linux''" "stub_os (Inr []) (Inr [])" "start 0"]
  note ts = zero_and_leading_zeros [OF s, of 2 "''linux''" "stub_os (Inr []) (Inr [])" "start 0"]
  have nz: "Number_of_digits (js ''0'') = Num 0"
    using tz bz by (simp add: vz)
  have ns: "Number_of_digits (js ''7'') = Num 7"
    using ts bs by (simp add: vs)
  show ?thesis
    using z s bz bs tz ts
    unfolding e0 e7 nz ns
    by (simp add: kill_command_def start_def)
qed

text \<open>
  C10 as the specification states it fails at the token \<^verbatim>\<open>009007199254740995\<close>: its
  decimal value is \<open>2^53 + 3\<close>, and the identifier passed on is \<open>2^53 + 4\<close>.
\<close>

theorem leading_zeros_counterexample:
  "all_digits (js ''009007199254740995'') \<and>
   int (dec_value (js ''009007199254740995'')) = 9007199254740995 \<and>
   commands (trace (handle_arg ''linux'' (stub_os (Inr []) (Inr []))
      (js ''009007199254740995'') (start 0))) = [Kill9 (Num 9007199254740996)] \<and>
   commands (trace (handle_arg ''linux'' (stub_os (Inr []) (Inr []))
      (js ''009007199254740995'') (start 0)))
     \<noteq> [Kill9 (Num (int (dec_value (js ''009007199254740995''))))]"
proof -
  have h1: "all_digits (js ''009007199254740995'')"
    by (simp add: js_def all_digits_def is_digit_def)
  have v: "int (dec_value (js ''009007199254740995'')) = 9007199254740995"
    by (simp add: js_def dec_value_def digit_value_def)
  have n: "Number_of_digits (js ''009007199254740995'') = Num 9007199254740996"
    by (simp add: js_def Number_of_digits_def dec_value_def digit_value_def to_double_def
        round_double_def Let_def)
  have "commands (trace (handle_arg ''linux'' (stub_os (Inr []) (Inr []))
      (js ''009007199254740995'') (start 0)))
      = [kill_command ''linux'' (Number_of_digits (js ''009007199254740995''))]"
    by (simp add: handle_arg_digits_commands [OF h1] start_def)
  then show ?thesis
    using h1 v by (simp add: n kill_command_def)
qed

text \<open>
  C3. For a token that is not numeric and whose resolution fulfils with the empty sequence,
  the driver prints the "not found" warning and nothing more: no error line, and no
  command besides the listing command. When the token is the only argument, that is the
  whole run, and the exit status is 0.
\<close>

theorem empty_resolution_not_found:
  "\<not> all_digits tok \<Longrightarrow> findPidByProcessName p exec tok st = (Inr [], st1) \<Longrightarrow>
     handle_arg p exec tok st = emit (ConsoleWarn (NotFound tok)) st1 \<and>
     trace (handle_arg p exec tok st) =
       trace st @ [Exec (list_command p tok), ConsoleWarn (NotFound tok)] \<and>
     filter (\<lambda>c. \<not> is_resolve c) (commands (trace (handle_arg p exec tok st))) =
       filter (\<lambda>c. \<not> is_resolve c) (commands (trace st)) \<and>
     (st = start w \<longrightarrow>
        main p exec [rt, script, tok] w = emit (ConsoleWarn (NotFound tok)) st1 \<and>
        exit_status (main p exec [rt, script, tok] w) = 0)"
proof -
  assume nd: "\<not> all_digits tok" and r: "findPidByProcessName p exec tok st = (Inr [], st1)"
  have h: "handle_arg p exec tok st = emit (ConsoleWarn (NotFound tok)) st1"
    using handle_arg_name [OF nd r] by simp
  have t1: "trace st1 = trace st @ [Exec (list_command p tok)]"
    using r by (auto simp add: findPid_eq)
  have e1: "exitCode st1 = exitCode st"
    using findPid_exitCode [of p exec tok st] r by simp
  have res: "is_resolve (list_command p tok)"
    by (simp add: list_command_def)
  have m: "st = start w \<longrightarrow>
        main p exec [rt, script, tok] w = emit (ConsoleWarn (NotFound tok)) st1 \<and>
        exit_status (main p exec [rt, script, tok] w) = 0"
  proof
    assume s: "st = start w"
    have "main p exec [rt, script, tok] w = emit (ConsoleWarn (NotFound tok)) st1"
      using h by (simp add: main_single s)
    moreover have "exitCode (emit (ConsoleWarn (NotFound tok)) st1) = None"
      using e1 by (simp add: exitCode_emit s start_def)
    ultimately show "main p exec [rt, script, tok] w = emit (ConsoleWarn (NotFound tok)) st1 \<and>
        exit_status (main p exec [rt, script, tok] w) = 0"
      by (simp add: exit_status_def)
  qed
  have c: "filter (\<lambda>c. \<not> is_resolve c) (commands (trace (handle_arg p exec tok st))) =
       filter (\<lambda>c. \<not> is_resolve c) (commands (trace st))"
    using res by (simp add: h t1 trace_emit commands_append)
  have t: "trace (handle_arg p exec tok st) =
       trace st @ [Exec (list_command p tok), ConsoleWarn (NotFound tok)]"
    by (simp add: h t1 trace_emit)
  show ?thesis
    using h t c m by blast
qed


theorem empty_resolution_not_found_witness:
  "\<not> all_digits (js ''ghost-process'') \<and>
   findPidByProcessName ''linux'' (stub_os (Inl (exit_error 1)) (Inr [])) (js ''ghost-process'')
       (start 0)
     = (Inr [], \<lparr>world = 1, trace = [Exec (Pgrep (js ''ghost-process''))], exitCode = None\<rparr>) \<and>
   trace (main ''linux'' (stub_os (Inl (exit_error 1)) (Inr []))
       [js ''bun'', js ''killer.ts'', js ''ghost-process''] 0)
     = [Exec (Pgrep (js ''ghost-process'')), ConsoleWarn (NotFound (js ''ghost-process''))] \<and>
   exit_status (main ''linux'' (stub_os (Inl (exit_error 1)) (Inr []))
       [js ''bun'', js ''killer.ts'', js ''ghost-process''] 0) = 0"
proof -
  have nd: "\<not> all_digits (js ''ghost-process'')"
    by (simp add: js_def all_digits_def is_digit_def)
  have r: "findPidByProcessName ''linux'' (stub_os (Inl (exit_error 1)) (Inr []))
       (js ''ghost-process'') (start 0)
     = (Inr [], \<lparr>world = 1, trace = [Exec (Pgrep (js ''ghost-process''))], exitCode = None\<rparr>)"
    by (simp add: findPid_eq stub_os_def start_def exit_error_def list_command_def)
  note t = empty_resolution_not_found [OF nd r, of 0 "js ''bun''" "js ''killer.ts''"]
  have m: "main ''linux'' (stub_os (Inl (exit_error 1)) (Inr []))
       [js ''bun'', js ''killer.ts'', js ''ghost-process''] 0
     = emit (ConsoleWarn (NotFound (js ''ghost-process'')))
         \<lparr>world = 1, trace = [Exec (Pgrep (js ''ghost-process''))], exitCode = None\<rparr>"
    using t by blast
  have e: "exit_status (main ''linux'' (stub_os (Inl (exit_error 1)) (Inr []))
       [js ''bun'', js ''killer.ts'', js ''ghost-process''] 0) = 0"
    using t by blast
  have tr: "trace (main ''linux'' (stub_os (Inl (exit_error 1)) (Inr []))
       [js ''bun'', js ''killer.ts'', js ''ghost-process''] 0)
     = [Exec (Pgrep (js ''ghost-process'')), ConsoleWarn (NotFound (js ''ghost-process''))]"
    by (simp add: m trace_emit)
  show ?thesis
    using nd r tr e by blast
qed

subsection \<open>Failures are kept local\<close>









subsection \<open>The lines of the POSIX listing\<close>

lemma parseInt_numeric_prefix:
  assumes ws: "list_all is_white_space ws"
    and sg: "sg = [] \<or> sg = [43] \<or> sg = [45]"
    and ds: "all_digits ds"
  shows "parseInt (ws @ sg @ ds @ rest) \<noteq> NaN"
proof -
  from ds obtain d ds' where dd: "ds = d # ds'" and d: "is_digit d"
    by (auto simp add: all_digits_def neq_Nil_conv)
  have nw: "sg @ ds @ rest \<noteq> [] \<and> \<not> is_white_space (hd (sg @ ds @ rest))"
    using sg d by (auto simp add: dd digit_not_white_space sign_not_white_space)
  have "dropWhile is_white_space (ws @ sg @ ds @ rest) = dropWhile is_white_space (sg @ ds @ rest)"
    using ws by (simp add: dropWhile_append2 list_all_iff)
  also have "\<dots> = sg @ ds @ rest"
    using nw by (cases "sg @ ds @ rest") auto
  finally have t: "trim_start (ws @ sg @ ds @ rest) = sg @ ds @ rest"
    by (simp add: trim_start_def)
  have z: "takeWhile is_digit (ds @ rest) \<noteq> []"
    using d by (simp add: dd)
  show ?thesis
    unfolding parseInt_def t Let_def
    using sg z digit_not_sign [OF d] by (auto simp add: dd to_double_not_NaN)
qed

lemma parseInt_not_NaN_prefix:
  assumes "parseInt l \<noteq> NaN"
  shows "\<exists>ws sg ds rest. l = ws @ sg @ ds @ rest \<and> list_all is_white_space ws \<and>
           (sg = [] \<or> sg = [43] \<or> sg = [45]) \<and> all_digits ds"
proof -
  let ?ws = "takeWhile is_white_space l"
  let ?t = "trim_start l"
  let ?sg = "if ?t \<noteq> [] \<and> (hd ?t = 43 \<or> hd ?t = 45) then [hd ?t] else []"
  let ?u = "if ?t \<noteq> [] \<and> (hd ?t = 43 \<or> hd ?t = 45) then tl ?t else ?t"
  let ?ds = "takeWhile is_digit ?u"
  let ?rest = "dropWhile is_digit ?u"
  have z: "?ds \<noteq> []"
    using assms by (auto simp add: parseInt_def Let_def split: if_splits)
  have l: "l = ?ws @ ?sg @ ?ds @ ?rest"
    by (simp add: trim_start_def)
  have w: "list_all is_white_space ?ws"
    by (auto simp add: list_all_iff dest: set_takeWhileD)
  have s: "?sg = [] \<or> ?sg = [43] \<or> ?sg = [45]"
    by auto
  have d: "all_digits ?ds"
    using z by (auto simp add: all_digits_def list_all_iff dest: set_takeWhileD)
  show ?thesis
    using l w s d by blast
qed

lemma findPid_posix_output:
  "p \<noteq> ''win32'' \<Longrightarrow> exec (Pgrep name) (world st) = (Inr out, w') \<Longrightarrow>
     findPidByProcessName p exec name st =
       (Inr (filter (\<lambda>n. n \<noteq> NaN) (map parseInt (split_lines (trim out)))),
        st\<lparr>trace := trace st @ [Exec (Pgrep name)], world := w'\<rparr>)"
  by (simp add: findPid_eq list_command_def pgrep_lines_eq)

lemma parseInt_prefix_value:
  assumes ws: "list_all is_white_space ws"
    and sg: "sg = [] \<or> sg = [43] \<or> sg = [45]"
    and ds: "all_digits ds"
    and rest: "rest = [] \<or> \<not> is_digit (hd rest)"
  shows "parseInt (ws @ sg @ ds @ rest) = to_double (sg = [45]) (dec_value ds)"
proof -
  from ds obtain d ds' where dd: "ds = d # ds'" and d: "is_digit d"
    by (auto simp add: all_digits_def neq_Nil_conv)
  have all: "list_all is_digit ds" using ds by (simp add: all_digits_def)
  have nw: "sg @ ds @ rest \<noteq> [] \<and> \<not> is_white_space (hd (sg @ ds @ rest))"
    using sg d by (auto simp add: dd digit_not_white_space sign_not_white_space)
  have "dropWhile is_white_space (ws @ sg @ ds @ rest) = dropWhile is_white_space (sg @ ds @ rest)"
    using ws by (simp add: dropWhile_append2 list_all_iff)
  also have "\<dots> = sg @ ds @ rest"
    using nw by (cases "sg @ ds @ rest") auto
  finally have t: "trim_start (ws @ sg @ ds @ rest) = sg @ ds @ rest"
    by (simp add: trim_start_def)
  have z: "takeWhile is_digit (ds @ rest) = ds"
    by (rule takeWhile_digits_append [OF all rest])
  have ne: "ds \<noteq> []" by (simp add: dd)
  show ?thesis
    unfolding parseInt_def t Let_def
    using sg z ne digit_not_sign [OF d] by (auto simp add: dd)
qed

lemma to_double_exact_signed:
  "m \<le> 2 ^ 53 \<Longrightarrow>
     to_double False m = Num (int m) \<and>
     to_double True m = (if m = 0 then NegZero else Num (- int m))"
  by (simp add: to_double_def round_double_exact)

text \<open>
  C7, amended. On a platform other than Windows, when the listing command succeeds, the
  resolver returns the numbers \<^verbatim>\<open>parseInt\<close> reads from the lines of the trimmed
  output, in output order, and skips the lines where it reads none. A line has a number
  exactly when, after white space and at most one sign, it begins with a decimal digit:
  what follows the digits is ignored, so a line need not be numeric to be kept. The number
  is the double of the digits' value, negated after a minus sign: for a value \<open>v\<close> of at
  most \<open>2^53\<close> it is \<open>v\<close> itself without a sign or after a plus sign, and after a
  minus sign it is \<open>-v\<close>, or the negative zero when \<open>v\<close> is zero.
\<close>

theorem posix_output_lines:
  "p \<noteq> ''win32'' \<Longrightarrow> exec (Pgrep name) (world st) = (Inr out, w') \<Longrightarrow>
     fst (findPidByProcessName p exec name st) =
       Inr (filter (\<lambda>n. n \<noteq> NaN) (map parseInt (split_lines (trim out)))) \<and>
     (\<forall>l. parseInt l \<noteq> NaN \<longleftrightarrow>
        (\<exists>ws sg ds rest. l = ws @ sg @ ds @ rest \<and> list_all is_white_space ws \<and>
           (sg = [] \<or> sg = [43] \<or> sg = [45]) \<and> all_digits ds)) \<and>
     (\<forall>ws sg ds rest.
        list_all is_white_space ws \<and> (sg = [] \<or> sg = [43] \<or> sg = [45]) \<and> all_digits ds \<and>
        (rest = [] \<or> \<not> is_digit (hd rest)) \<longrightarrow>
        parseInt (ws @ sg @ ds @ rest) = to_double (sg = [45]) (dec_value ds)) \<and>
     (\<forall>m. m \<le> 2 ^ 53 \<longrightarrow>
        to_double False m = Num (int m) \<and>
        to_double True m = (if m = 0 then NegZero else Num (- int m)))"
proof -
  assume p: "p \<noteq> ''win32''" and e: "exec (Pgrep name) (world st) = (Inr out, w')"
  have a: "fst (findPidByProcessName p exec name st) =
       Inr (filter (\<lambda>n. n \<noteq> NaN) (map parseInt (split_lines (trim out))))"
    using p e by (simp add: findPid_posix_output)
  have b: "\<forall>l. parseInt l \<noteq> NaN \<longleftrightarrow>
        (\<exists>ws sg ds rest. l = ws @ sg @ ds @ rest \<and> list_all is_white_space ws \<and>
           (sg = [] \<or> sg = [43] \<or> sg = [45]) \<and> all_digits ds)"
  proof (intro allI iffI)
    fix l
    assume "parseInt l \<noteq> NaN"
    then show "\<exists>ws sg ds rest. l = ws @ sg @ ds @ rest \<and> list_all is_white_space ws \<and>
           (sg = [] \<or> sg = [43] \<or> sg = [45]) \<and> all_digits ds"
      by (rule parseInt_not_NaN_prefix)
  next
    fix l
    assume "\<exists>ws sg ds rest. l = ws @ sg @ ds @ rest \<and> list_all is_white_space ws \<and>
           (sg = [] \<or> sg = [43] \<or> sg = [45]) \<and> all_digits ds"
    then obtain ws sg ds rest where "l = ws @ sg @ ds @ rest" "list_all is_white_space ws"
        "sg = [] \<or> sg = [43] \<or> sg = [45]" "all_digits ds"
      by blast
    then show "parseInt l \<noteq> NaN"
      using parseInt_numeric_prefix [of ws sg ds rest] by simp
  qed
  have c: "\<forall>ws sg ds rest.
        list_all is_white_space ws \<and> (sg = [] \<or> sg = [43] \<or> sg = [45]) \<and> all_digits ds \<and>
        (rest = [] \<or> \<not> is_digit (hd rest)) \<longrightarrow>
        parseInt (ws @ sg @ ds @ rest) = to_double (sg = [45]) (dec_value ds)"
    using parseInt_prefix_value by blast
  have d: "\<forall>m. m \<le> 2 ^ 53 \<longrightarrow>
        to_double False m = Num (int m) \<and>
        to_double True m = (if m = 0 then NegZero else Num (- int m))"
    using to_double_exact_signed by blast
  show ?thesis
    using a b c d by blast
qed

lemma signed_lines:
  "split_lines (trim (js ''7\<newline>12abc\<newline>-5\<newline> 42\<newline>+7\<newline>pid''))
     = [js ''7'', js ''12abc'', js ''-5'', js '' 42'', js ''+7'', js ''pid'']"
  by (simp add: js_def trim_def split_lines_def is_white_space_def)

lemma signed_parse:
  "parseInt (js ''7'') = Num 7" "parseInt (js ''12abc'') = Num 12"
  "parseInt (js ''-5'') = Num (- 5)" "parseInt (js '' 42'') = Num 42"
  "parseInt (js ''+7'') = Num 7" "parseInt (js ''pid'') = NaN"
  by (simp_all add: js_def parseInt_def trim_start_def is_white_space_def is_digit_def
      dec_value_def digit_value_def to_double_def round_double_def Let_def)

theorem posix_output_lines_witness:
  "''linux'' \<noteq> ''win32'' \<and>
   stub_os (Inr (js ''7\<newline>12abc\<newline>-5\<newline> 42\<newline>+7\<newline>pid'')) (Inr [])
       (Pgrep (js ''bash'')) (world (start 0))
     = (Inr (js ''7\<newline>12abc\<newline>-5\<newline> 42\<newline>+7\<newline>pid''), 1) \<and>
   fst (findPidByProcessName ''linux''
       (stub_os (Inr (js ''7\<newline>12abc\<newline>-5\<newline> 42\<newline>+7\<newline>pid'')) (Inr []))
       (js ''bash'') (start 0))
     = Inr [Num 7, Num 12, Num (- 5), Num 42, Num 7] \<and>
   list_all is_white_space [] \<and> all_digits (js ''5'') \<and> dec_value (js ''5'') \<le> 2 ^ 53 \<and>
   parseInt ([] @ [45] @ js ''5'' @ []) = Num (- 5) \<and>
   list_all is_white_space [32] \<and> all_digits (js ''42'') \<and> dec_value (js ''42'') \<le> 2 ^ 53 \<and>
   parseInt ([32] @ [] @ js ''42'' @ []) = Num 42 \<and>
   all_digits (js ''12'') \<and> dec_value (js ''12'') \<le> 2 ^ 53 \<and> \<not> is_digit (hd (js ''abc'')) \<and>
   parseInt ([] @ [] @ js ''12'' @ js ''abc'') = Num 12"
proof -
  let ?out = "js ''7\<newline>12abc\<newline>-5\<newline> 42\<newline>+7\<newline>pid''"
  have p: "''linux'' \<noteq> ''win32''"
    by simp
  have e: "stub_os (Inr ?out) (Inr []) (Pgrep (js ''bash'')) (world (start 0)) = (Inr ?out, 1)"
    by (simp add: stub_os_def start_def)
  note t = posix_output_lines [where exec = "stub_os (Inr ?out) (Inr [])"
      and name = "js ''bash''" and st = "start 0", OF p e]
  have w0: "list_all is_white_space []" and w1: "list_all is_white_space [32]"
    by (simp_all add: is_white_space_def)
  have d5: "all_digits (js ''5'')" and d42: "all_digits (js ''42'')"
    and d12: "all_digits (js ''12'')" and nd: "\<not> is_digit (hd (js ''abc''))"
    by (simp_all add: js_def all_digits_def is_digit_def)
  have v5: "dec_value (js ''5'') = 5" and v42: "dec_value (js ''42'') = 42"
    and v12: "dec_value (js ''12'') = 12"
    by (simp_all add: js_def dec_value_def digit_value_def)
  have a: "fst (findPidByProcessName ''linux'' (stub_os (Inr ?out) (Inr []))
       (js ''bash'') (start 0)) = Inr [Num 7, Num 12, Num (- 5), Num 42, Num 7]"
    using t by (simp add: signed_lines signed_parse)
  have c: "\<And>ws sg ds rest.
        list_all is_white_space ws \<Longrightarrow> sg = [] \<or> sg = [43] \<or> sg = [45] \<Longrightarrow> all_digits ds \<Longrightarrow>
        rest = [] \<or> \<not> is_digit (hd rest) \<Longrightarrow>
        parseInt (ws @ sg @ ds @ rest) = to_double (sg = [45]) (dec_value ds)"
    using t by blast
  have d: "\<And>m. m \<le> 2 ^ 53 \<Longrightarrow>
        to_double False m = Num (int m) \<and>
        to_double True m = (if m = 0 then NegZero else Num (- int m))"
    using t by blast
  have m5: "parseInt ([] @ [45] @ js ''5'' @ []) = Num (- 5)"
    using c [OF w0 _ d5, of "[45]" "[]"] d [of 5] by (simp add: v5)
  have m42: "parseInt ([32] @ [] @ js ''42'' @ []) = Num 42"
    using c [OF w1 _ d42, of "[]" "[]"] d [of 42] by (simp add: v42)
  have m12: "parseInt ([] @ [] @ js ''12'' @ js ''abc'') = Num 12"
    using c [OF w0 _ d12, of "[]" "js ''abc''"] d [of 12] nd by (simp add: v12)
  show ?thesis
    using p e a w0 w1 d5 d42 d12 nd m5 m42 m12 by (simp add: v5 v42 v12)
qed

lemma stub_lines: "split_lines (trim (js ''7\<newline>12abc'')) = [js ''7'', js ''12abc'']"
  by (simp add: js_def trim_def split_lines_def is_white_space_def)

lemma stub_parse: "parseInt (js ''7'') = Num 7" "parseInt (js ''12abc'') = Num 12"
  by (simp_all add: js_def parseInt_def trim_start_def is_white_space_def is_digit_def
      dec_value_def digit_value_def to_double_def round_double_def Let_def)

text \<open>
  C7 as the specification states it fails when the output is the two lines \<^verbatim>\<open>7\<close> and
  \<^verbatim>\<open>12abc\<close>: the second line is not numeric, the specification skips it, and the
  resolver returns 12 for it.
\<close>

theorem posix_output_lines_counterexample:
  "\<not> all_digits (js ''12abc'') \<and>
   spec_numeric_lines (js ''7\<newline>12abc'') = [Num 7] \<and>
   fst (findPidByProcessName ''linux'' (stub_os (Inr (js ''7\<newline>12abc'')) (Inr []))
       (js ''bash'') (start 0))
     = Inr [Num 7, Num 12] \<and>
   fst (findPidByProcessName ''linux'' (stub_os (Inr (js ''7\<newline>12abc'')) (Inr []))
       (js ''bash'') (start 0))
     \<noteq> Inr (spec_numeric_lines (js ''7\<newline>12abc''))"
proof -
  have nd: "\<not> all_digits (js ''12abc'')" and d: "all_digits (js ''7'')"
    by (simp_all add: js_def all_digits_def is_digit_def)
  have l: "split_lines (js ''7\<newline>12abc'') = [js ''7'', js ''12abc'']"
    by (simp add: js_def split_lines_def)
  have v: "dec_value (js ''7'') = 7"
    by (simp add: js_def dec_value_def digit_value_def)
  have s: "spec_numeric_lines (js ''7\<newline>12abc'') = [Num 7]"
    by (simp add: spec_numeric_lines_def l nd d v)
  have e: "stub_os (Inr (js ''7\<newline>12abc'')) (Inr []) (Pgrep (js ''bash'')) (world (start 0))
     = (Inr (js ''7\<newline>12abc''), 1)"
    by (simp add: stub_os_def start_def)
  have "fst (findPidByProcessName ''linux'' (stub_os (Inr (js ''7\<newline>12abc'')) (Inr []))
       (js ''bash'') (start 0)) = Inr [Num 7, Num 12]"
    using e by (simp add: findPid_posix_output stub_lines stub_parse)
  then show ?thesis
    using nd s by simp
qed

subsection \<open>The rows of the Windows listing\<close>



























end
